theory Spec2Isabelle
  imports Main
begin

section \<open>Data model\<close>

text \<open>
  A shallow embedding of \<^verbatim>\<open>src/pykeen/evaluation/evaluator.py\<close>.

  A row of \<^verbatim>\<open>MappedTriples\<close> (a LongTensor of shape \<open>(n, 3)\<close>) is a triple
  (head, relation, tail) of integer identifiers; a triple tensor is the list of its rows.
  1-D LongTensors of identifiers (\<^verbatim>\<open>restrict_entities_to\<close>,
  \<^verbatim>\<open>restrict_relations_to\<close>) are lists of integers, and an \<^verbatim>\<open>Optional\<close>
  argument is an \<open>option\<close>.
\<close>

type_synonym triple = "int \<times> int \<times> int"

text \<open>\<open>tcol c t\<close> is \<^verbatim>\<open>t[c]\<close> for the three columns 0, 1, 2 of a row.\<close>

fun tcol :: "int \<Rightarrow> triple \<Rightarrow> int" where
  "tcol c (h, r, t) = (if c = 0 then h else if c = 1 then r else t)"

text \<open>
  The exceptions the modelled code raises. A \<^verbatim>\<open>RuntimeError\<close> carries the class of
  its message, which is all that \<^verbatim>\<open>is_cuda_oom_error\<close> and
  \<^verbatim>\<open>is_cudnn_error\<close> look at; the two \<^verbatim>\<open>MemoryError\<close>s of the size search
  are told apart by their message; \<^verbatim>\<open>NotImplementedError\<close> and
  \<^verbatim>\<open>ValueError\<close> carry the rejected column.
\<close>

datatype runtime_kind = CudaOom | Cudnn | OtherRuntime

datatype memory_message = SlicingNotImplemented nat | CannotBeTrained

datatype error =
    RuntimeError runtime_kind
  | MemoryError memory_message
  | AttributeError string
  | NotImplementedError int
  | ValueError int
  | AssertionError
  | TypeError
  | IndexError
  | UnboundLocalError string

text \<open>
  Modelled from the spec: \<^verbatim>\<open>is_cuda_oom_error\<close> and \<^verbatim>\<open>is_cudnn_error\<close> live in
  \<^verbatim>\<open>pykeen.utils\<close>, which is not part of the sources. The specification calls the
  errors they accept memory-class errors: an accelerator allocation failure, or a backend
  internal error interpreted as memory exhaustion.
\<close>

definition is_cuda_oom_error :: "runtime_kind \<Rightarrow> bool" where
  "is_cuda_oom_error k = (k = CudaOom)"

definition is_cudnn_error :: "runtime_kind \<Rightarrow> bool" where
  "is_cudnn_error k = (k = Cudnn)"

text \<open>
  What the evaluation code reads from a \<^verbatim>\<open>Model\<close>: the two scoring functions (each
  takes the two known columns of every batch row and the slice size, and returns a score
  matrix or raises a \<^verbatim>\<open>RuntimeError\<close>), the slicing capabilities, the number of
  entities, and from its triples factory the training triples and whether inverse triples
  were created. The scoring math itself is external and stays a parameter.
\<close>

record 's model =
  predict_scores_all_tails :: "(int \<times> int) list \<Rightarrow> nat option \<Rightarrow> runtime_kind + 's list list"
  predict_scores_all_heads :: "(int \<times> int) list \<Rightarrow> nat option \<Rightarrow> runtime_kind + 's list list"
  can_slice_h :: bool
  can_slice_t :: bool
  num_entities :: nat
  create_inverse_triples :: bool
  factory_mapped_triples :: "triple list"


section \<open>Restricting the triples: the two mask computations\<close>

text \<open>
  \<^verbatim>\<open>_compute_triples_mask_high_memory\<close>: starting from an all-true mask, for each of the
  columns 0 and 2 the mask is and-ed with "the entry occurs in
  \<^verbatim>\<open>restrict_entities_to\<close>", then with "the relation occurs in
  \<^verbatim>\<open>restrict_relations_to\<close>".
\<close>

definition compute_triples_mask_high_memory ::
  "triple list \<Rightarrow> int list option \<Rightarrow> int list option \<Rightarrow> bool list" where
  "compute_triples_mask_high_memory mapped_triples restrict_entities_to restrict_relations_to =
    (let mask = replicate (length mapped_triples) True;
         mask = (case restrict_entities_to of
                   None \<Rightarrow> mask
                 | Some entities \<Rightarrow>
                     fold (\<lambda>col m. map2 (\<and>) m
                             (map (\<lambda>t. list_ex (\<lambda>e. tcol col t = e) entities) mapped_triples))
                       [0, 2] mask);
         mask = (case restrict_relations_to of
                   None \<Rightarrow> mask
                 | Some relations \<Rightarrow>
                     map2 (\<and>) mask
                       (map (\<lambda>t. list_ex (\<lambda>r. tcol 1 t = r) relations) mapped_triples))
     in mask)"

text \<open>
  \<^verbatim>\<open>_compute_triples_mask_low_memory\<close>: an all-false entity mask is or-ed, for every
  allowed entity and each of the columns 0 and 2, with "the entry equals this entity", and
  the result is and-ed into the mask. For the relations an all-false relation mask is
  accumulated in the same way; the function then returns \<^verbatim>\<open>mask\<close>, and the relation
  mask is not used again.
\<close>

definition compute_triples_mask_low_memory ::
  "triple list \<Rightarrow> int list option \<Rightarrow> int list option \<Rightarrow> bool list" where
  "compute_triples_mask_low_memory mapped_triples restrict_entities_to restrict_relations_to =
    (let mask = replicate (length mapped_triples) True;
         mask = (case restrict_entities_to of
                   None \<Rightarrow> mask
                 | Some entities \<Rightarrow>
                     (let triples_entity_mask =
                            fold (\<lambda>entity_id m.
                                    fold (\<lambda>col m'. map2 (\<or>) m'
                                            (map (\<lambda>t. tcol col t = entity_id) mapped_triples))
                                      [0, 2] m)
                              entities (replicate (length mapped_triples) False)
                      in map2 (\<and>) mask triples_entity_mask));
         triples_relation_mask =
                (case restrict_relations_to of
                   None \<Rightarrow> None
                 | Some relations \<Rightarrow>
                     Some (fold (\<lambda>relation_id m. map2 (\<or>) m
                                   (map (\<lambda>t. tcol 1 t = relation_id) mapped_triples))
                             relations (replicate (length mapped_triples) False)))
     in mask)"

text \<open>\<^verbatim>\<open>mapped_triples[mask]\<close>: the rows whose mask entry is true.\<close>

definition select_rows :: "'a list \<Rightarrow> bool list \<Rightarrow> 'a list" where
  "select_rows xs selected = map fst (filter snd (zip xs selected))"


section \<open>The size search\<close>

text \<open>
  \<^verbatim>\<open>_check_slicing_availability\<close>: with inverse triples only tail slicing is asked for,
  without them both sides are.
\<close>

definition check_slicing_availability :: "('s, 'z) model_scheme \<Rightarrow> nat \<Rightarrow> error + unit" where
  "check_slicing_availability model batch_sz =
    (if create_inverse_triples model then
       (if \<not> can_slice_t model then Inl (MemoryError (SlicingNotImplemented batch_sz))
        else Inr ())
     else if \<not> can_slice_t model \<or> \<not> can_slice_h model
       then Inl (MemoryError (SlicingNotImplemented batch_sz))
     else Inr ())"

text \<open>
  \<^verbatim>\<open>values_dict\<close> of \<^verbatim>\<open>_param_size_search\<close> holds the two keyword arguments of the
  probe. After the set-up one of them is the searched parameter and the other is fixed
  (\<^verbatim>\<open>slice_size = None\<close> in the batch size search, \<^verbatim>\<open>batch_size = 1\<close> in the slice
  size search), so the dictionary is a function of the key and the searched value.
\<close>

record size_values =
  batch_size :: "nat option"
  slice_size :: "nat option"

definition values_dict :: "string \<Rightarrow> nat \<Rightarrow> size_values" where
  "values_dict key v =
    (if key = ''batch_size'' then \<lparr>batch_size = Some v, slice_size = None\<rparr>
     else \<lparr>batch_size = Some 1, slice_size = Some v\<rparr>)"

text \<open>\<^verbatim>\<open>values_dict['batch_size']\<close>, read in the growth test of the loop.\<close>

definition dict_batch_size :: "string \<Rightarrow> nat \<Rightarrow> nat" where
  "dict_batch_size key v = (if key = ''batch_size'' then v else 1)"

text \<open>
  The loop variables of \<^verbatim>\<open>_param_size_search\<close>, and the list of the values probed so
  far (the probes are the only effect of the loop).
\<close>

record search_state =
  current :: nat
  reached_max :: bool
  evaluated_once :: bool
  probed :: "size_values list"

text \<open>
  The \<^verbatim>\<open>while True\<close> loop. The probe is the call
  \<^verbatim>\<open>evaluate(**values_dict, ..., only_size_probing=True)\<close>; what it does depends on the
  hardware, so it is a parameter: \<open>probe n d\<close> is the outcome of the \<open>n\<close>-th attempt
  (counted from 0) with the keyword arguments \<open>d\<close>, either normal completion or the
  exception raised. The loop may run forever, so the result is an \<open>option\<close>: \<open>None\<close>
  means that it never returns. A returned pair holds the probes made and either the
  exception that left the loop or \<^verbatim>\<open>(values_dict[key], evaluated_once)\<close>.
\<close>

partial_function (option) param_size_loop ::
  "(nat \<Rightarrow> size_values \<Rightarrow> error + unit) \<Rightarrow> string \<Rightarrow> nat \<Rightarrow> search_state
     \<Rightarrow> (size_values list \<times> (error + nat \<times> bool)) option" where
  "param_size_loop probe key maximum_triples s =
    (let d = values_dict key (current s); log = probed s @ [d] in
     case probe (length (probed s)) d of
       Inl exn \<Rightarrow>
         (case exn of
            RuntimeError k \<Rightarrow>
              if \<not> is_cudnn_error k \<and> \<not> is_cuda_oom_error k then Some (log, Inl exn)
              else if current s = 1 then Some (log, Inr (current s, evaluated_once s))
              else param_size_loop probe key maximum_triples
                     (s\<lparr>current := current s div 2, evaluated_once := False,
                        reached_max := True, probed := log\<rparr>)
          | _ \<Rightarrow> Some (log, Inl exn))
     | Inr _ \<Rightarrow>
         if \<not> reached_max s \<and> dict_batch_size key (current s) < maximum_triples
           then param_size_loop probe key maximum_triples
                  (s\<lparr>current := current s * 2, evaluated_once := True, probed := log\<rparr>)
         else if evaluated_once s then Some (log, Inr (current s, evaluated_once s))
         else param_size_loop probe key maximum_triples
                (s\<lparr>evaluated_once := True, probed := log\<rparr>))"

text \<open>
  \<^verbatim>\<open>_param_size_search\<close>: the set-up, then the loop from
  \<^verbatim>\<open>reached_max = evaluated_once = False\<close>. Sizes are natural numbers (the docstrings
  ask for positive integers). \<^verbatim>\<open>start_value\<close> is \<^verbatim>\<open>None\<close> only in a batch size
  search, where 256 replaces it; the one caller of the slice size search passes an integer.
\<close>

definition param_size_search ::
  "(nat \<Rightarrow> size_values \<Rightarrow> error + unit) \<Rightarrow> string \<Rightarrow> nat option \<Rightarrow> ('s, 'z) model_scheme
     \<Rightarrow> triple list \<Rightarrow> (size_values list \<times> (error + nat \<times> bool)) option" where
  "param_size_search probe key start_value model mapped_triples =
    (let maximum_triples = length mapped_triples in
     if key = ''batch_size'' then
       (let start_value = (case start_value of None \<Rightarrow> 256 | Some v \<Rightarrow> v);
            start_value = (if start_value > maximum_triples then maximum_triples
                           else start_value)
        in param_size_loop probe key maximum_triples
             \<lparr>current = start_value, reached_max = False, evaluated_once = False,
              probed = []\<rparr>)
     else if key = ''slice_size'' then
       (case check_slicing_availability model 1 of
          Inl exn \<Rightarrow> Some ([], Inl exn)
        | Inr _ \<Rightarrow>
            (case start_value of
               None \<Rightarrow> Some ([], Inl TypeError)
             | Some v \<Rightarrow>
                 param_size_loop probe key maximum_triples
                   \<lparr>current = v, reached_max = False, evaluated_once = False,
                    probed = []\<rparr>))
     else Some ([], Inl (AttributeError key)))"

text \<open>
  \<^verbatim>\<open>batch_and_slice\<close>: the batch size search, and the slice size search from
  \<^verbatim>\<open>ceil(model.num_entities / 2)\<close> when the first one never succeeded. The attempts of
  the second search are numbered after those of the first. The result holds all probes
  made, and the exception or \<^verbatim>\<open>(batch_size, slice_size)\<close>.
\<close>

definition batch_and_slice ::
  "(nat \<Rightarrow> size_values \<Rightarrow> error + unit) \<Rightarrow> ('s, 'z) model_scheme \<Rightarrow> triple list \<Rightarrow> nat option
     \<Rightarrow> (size_values list \<times> (error + nat \<times> nat option)) option" where
  "batch_and_slice probe model mapped_triples batch_sz =
    (case param_size_search probe ''batch_size'' batch_sz model mapped_triples of
       None \<Rightarrow> None
     | Some (log1, Inl exn) \<Rightarrow> Some (log1, Inl exn)
     | Some (log1, Inr (bs, evaluated)) \<Rightarrow>
         if evaluated then Some (log1, Inr (bs, None))
         else
           (case param_size_search (\<lambda>n. probe (length log1 + n)) ''slice_size''
                   (Some ((num_entities model + 1) div 2)) model mapped_triples of
              None \<Rightarrow> None
            | Some (log2, Inl exn) \<Rightarrow> Some (log1 @ log2, Inl exn)
            | Some (log2, Inr (ss, evaluated2)) \<Rightarrow>
                if \<not> evaluated2 then Some (log1 @ log2, Inl (MemoryError CannotBeTrained))
                else Some (log1 @ log2, Inr (bs, Some ss))))"


text \<open>The probe whose every attempt raises an out-of-memory error.\<close>

definition always_oom :: "nat \<Rightarrow> size_values \<Rightarrow> error + unit" where
  "always_oom n d = Inl (RuntimeError CudaOom)"


section \<open>Tensors of scores\<close>

text \<open>
  A floating-point score is either a number or a NaN; a NaN carries its payload, so that
  equality of two scores is equality bit for bit. \<^verbatim>\<open>float('nan')\<close> is \<open>NaN 0\<close>, and
  \<^verbatim>\<open>x != x\<close> holds exactly for the NaNs. The numbers stay abstract: the evaluation code
  only moves scores around.
\<close>

datatype 'a score = Num 'a | NaN nat

fun isnan :: "'a score \<Rightarrow> bool" where
  "isnan (NaN _) = True"
| "isnan (Num _) = False"

text \<open>
  A 2-D tensor is the list of its rows (all of the same length for a tensor; the model
  looks at the length of the row it reads). An index tensor holds integers; torch counts a
  negative index from the end and raises \<^verbatim>\<open>IndexError\<close> outside \<open>[-n, n)\<close>.
\<close>

definition index_ok :: "nat \<Rightarrow> int \<Rightarrow> bool" where
  "index_ok n i = (- int n \<le> i \<and> i < int n)"

definition norm_index :: "nat \<Rightarrow> int \<Rightarrow> nat" where
  "norm_index n i = nat (if i < 0 then int n + i else i)"

fun cell_ok :: "'a list list \<Rightarrow> int \<times> int \<Rightarrow> bool" where
  "cell_ok m (i, j) =
     (index_ok (length m) i \<and> index_ok (length (m ! norm_index (length m) i)) j)"

fun cell_at :: "'a list list \<Rightarrow> int \<times> int \<Rightarrow> nat \<times> nat" where
  "cell_at m (i, j) =
     (let r = norm_index (length m) i in (r, norm_index (length (m ! r)) j))"

text \<open>\<^verbatim>\<open>m[rows, cols]\<close> with two index tensors of equal length, given as pairs.\<close>

definition index_get :: "'a list list \<Rightarrow> (int \<times> int) list \<Rightarrow> error + 'a list" where
  "index_get m idx =
    (if list_all (cell_ok m) idx
     then Inr (map (\<lambda>p. case cell_at m p of (r, c) \<Rightarrow> m ! r ! c) idx)
     else Inl IndexError)"

text \<open>
  \<^verbatim>\<open>m[rows, cols] = values\<close>, in place: the updated tensor is returned. The writes happen
  in the order of the index pairs.
\<close>

definition index_put :: "'a list list \<Rightarrow> ((int \<times> int) \<times> 'a) list \<Rightarrow> error + 'a list list" where
  "index_put m updates =
    (if list_all (cell_ok m) (map fst updates)
     then Inr (fold (\<lambda>(p, v) m'. case cell_at m p of (r, c) \<Rightarrow> m'[r := (m' ! r)[c := v]])
                 updates m)
     else Inl IndexError)"

text \<open>\<^verbatim>\<open>m[:, cols]\<close>: a new tensor with the chosen columns of every row.\<close>

definition select_columns :: "'a list list \<Rightarrow> int list \<Rightarrow> error + 'a list list" where
  "select_columns m cols =
    (if list_all (\<lambda>row. list_all (index_ok (length row)) cols) m
     then Inr (map (\<lambda>row. map (\<lambda>j. row ! norm_index (length row) j) cols) m)
     else Inl IndexError)"

text \<open>\<^verbatim>\<open>torch.zeros_like\<close>.\<close>

definition zeros_like :: "'a::zero score list list \<Rightarrow> 'a score list list" where
  "zeros_like m = map (map (\<lambda>_. Num 0)) m"

text \<open>
  \<^verbatim>\<open>nonzero()\<close> of a boolean matrix: the coordinates of the true entries, row by row.
\<close>

definition nonzero :: "bool list list \<Rightarrow> (nat \<times> nat) list" where
  "nonzero m =
    concat (map (\<lambda>i. map (\<lambda>j. (i, j)) (filter (\<lambda>j. m ! i ! j) [0..<length (m ! i)]))
              [0..<length m])"


section \<open>The filter engine\<close>

text \<open>
  \<^verbatim>\<open>create_sparse_positive_filter_\<close>. The relation filter, when none is passed in, is
  the comparison of the relation column of the positives (as a row) with the relation
  column of the batch (as a column); the entity test is the same comparison on the column
  that is not filtered. Both are and-ed, the coordinates \<open>(i, j)\<close> of the true entries are
  taken, and \<open>j\<close> is replaced by the entry of positive \<open>j\<close> in the filtered column.

  A relation filter that is passed in has the shape \<open>(batch_size, num_positive_triples)\<close>
  by the docstring; for any other shape the model raises the \<^verbatim>\<open>RuntimeError\<close> that
  torch raises for operands that cannot be broadcast (broadcasting a filter of another,
  compatible shape is not modelled).
\<close>

definition create_sparse_positive_filter ::
  "triple list \<Rightarrow> triple list \<Rightarrow> bool list list option \<Rightarrow> int
     \<Rightarrow> error + (int \<times> int) list \<times> bool list list" where
  "create_sparse_positive_filter hrt_batch all_pos_triples relation_filter filter_col =
    (if filter_col \<notin> {0, 2} then Inl (NotImplementedError filter_col)
     else
       let relation_filter =
             (case relation_filter of
                None \<Rightarrow> map (\<lambda>b. map (\<lambda>p. tcol 1 p = tcol 1 b) all_pos_triples) hrt_batch
              | Some rf \<Rightarrow> rf);
           other_col = 2 - filter_col;
           entity_filter_test =
             map (\<lambda>b. map (\<lambda>p. tcol other_col p = tcol other_col b) all_pos_triples)
               hrt_batch
       in if map length relation_filter \<noteq> map length entity_filter_test
          then Inl (RuntimeError OtherRuntime)
          else
            let filter_batch = nonzero (map2 (map2 (\<and>)) entity_filter_test relation_filter);
                filter_batch =
                  map (\<lambda>(i, j). (int i, tcol filter_col (all_pos_triples ! j))) filter_batch
            in Inr (filter_batch, relation_filter))"

text \<open>\<^verbatim>\<open>create_dense_positive_mask_\<close>: ones written at the filter's coordinates.\<close>

definition create_dense_positive_mask ::
  "'a::one score list list \<Rightarrow> (int \<times> int) list \<Rightarrow> error + 'a score list list" where
  "create_dense_positive_mask zero_tensor filter_batch =
     index_put zero_tensor (map (\<lambda>p. (p, Num 1)) filter_batch)"

text \<open>
  \<^verbatim>\<open>filter_scores_\<close>: NaN written at the filter's coordinates. The second component
  says whether the warning was logged: some row has as many NaNs as it has entries.
\<close>

definition filter_scores ::
  "'a score list list \<Rightarrow> (int \<times> int) list \<Rightarrow> error + 'a score list list \<times> bool" where
  "filter_scores scores filter_batch =
    (case index_put scores (map (\<lambda>p. (p, NaN 0)) filter_batch) of
       Inl exn \<Rightarrow> Inl exn
     | Inr scores \<Rightarrow>
         Inr (scores, list_ex (\<lambda>row. length (filter isnan row) = length row) scores))"


section \<open>Evaluators and the effects of an evaluation\<close>

text \<open>
  An \<^verbatim>\<open>Evaluator\<close> is an object with the two flags set by its constructor; \<open>ident\<close>
  stands for its identity. Its \<^verbatim>\<open>process_tail_scores_\<close>,
  \<^verbatim>\<open>process_head_scores_\<close> and \<^verbatim>\<open>finalize\<close> methods are abstract, so the model
  records every call with the arguments as they are at the time of the call.
\<close>

record evaluator =
  filtered :: bool
  requires_positive_mask :: bool
  ident :: nat

datatype side = Head | Tail

record 'a process_call =
  call_hrt_batch :: "triple list"
  call_true_scores :: "'a score list list"
  call_scores :: "'a score list list"
  call_dense_positive_mask :: "'a score list list option"

text \<open>
  The observable steps, in the order in which they happen:
  \<^item> \<open>Scored\<close>: the model's scoring function for a side was invoked;
  \<^item> \<open>ProcessedUnfiltered\<close>, \<open>ProcessedFiltered\<close>: \<^verbatim>\<open>_evaluate\<close> called the process
    method of an unfiltered or of a filtered evaluator;
  \<^item> \<open>NaNWritten\<close>: \<^verbatim>\<open>filter_scores_\<close> overwrote the score matrix returned by the
    model in place (with the matrix after the write), and \<open>Warned\<close>: it logged its
    warning;
  \<^item> \<open>TrueScoresRewritten\<close>: the true scores were written back into that matrix (with
    the matrix after the write);
  \<^item> \<open>Finalized\<close>: \<^verbatim>\<open>finalize\<close> of an evaluator was called.
\<close>

datatype 'a event =
    Scored side "(int \<times> int) list" "nat option"
  | ProcessedUnfiltered evaluator side "'a process_call"
  | NaNWritten "(int \<times> int) list" "'a score list list"
  | Warned
  | TrueScoresRewritten "'a score list list"
  | ProcessedFiltered evaluator side "'a process_call"
  | Finalized evaluator

text \<open>
  A computation yields the events it caused and then either the exception that ended it
  or its value. \<open>run_bind\<close> sequences two computations: an exception in the first one
  skips the second.
\<close>

type_synonym ('a, 'r) run = "'a event list \<times> (error + 'r)"

definition run_return :: "'r \<Rightarrow> ('a, 'r) run" where
  "run_return x = ([], Inr x)"

definition run_raise :: "error \<Rightarrow> ('a, 'r) run" where
  "run_raise exn = ([], Inl exn)"

definition run_lift :: "error + 'r \<Rightarrow> ('a, 'r) run" where
  "run_lift r = ([], r)"

definition run_emit :: "'a event list \<Rightarrow> ('a, unit) run" where
  "run_emit evs = (evs, Inr ())"

definition run_bind :: "('a, 'r) run \<Rightarrow> ('r \<Rightarrow> ('a, 'q) run) \<Rightarrow> ('a, 'q) run" where
  "run_bind m f =
    (case m of
       (tr, Inl exn) \<Rightarrow> (tr, Inl exn)
     | (tr, Inr x) \<Rightarrow> (case f x of (tr', r) \<Rightarrow> (tr @ tr', r)))"


section \<open>One batch and one corruption side\<close>

text \<open>
  The call of the scoring function for a column: \<^verbatim>\<open>predict_scores_all_tails\<close> on the
  columns 0 and 1 for column 2, \<^verbatim>\<open>predict_scores_all_heads\<close> on the columns 1 and 2
  otherwise.
\<close>

definition predict_scores ::
  "('a score, 'z) model_scheme \<Rightarrow> int \<Rightarrow> triple list \<Rightarrow> nat option
     \<Rightarrow> ('a, 'a score list list) run" where
  "predict_scores model column batch slice_sz =
    (if column = 2
     then (let hr = map (\<lambda>(h, r, t). (h, r)) batch in
           ([Scored Tail hr slice_sz],
            case predict_scores_all_tails model hr slice_sz of
              Inl k \<Rightarrow> Inl (RuntimeError k) | Inr s \<Rightarrow> Inr s))
     else (let rt = map (\<lambda>(h, r, t). (r, t)) batch in
           ([Scored Head rt slice_sz],
            case predict_scores_all_heads model rt slice_sz of
              Inl k \<Rightarrow> Inl (RuntimeError k) | Inr s \<Rightarrow> Inr s)))"

text \<open>
  The index pairs \<^verbatim>\<open>(torch.arange(0, batch.shape[0]), batch[:, column])\<close>: row \<open>i\<close>
  with the entity of row \<open>i\<close> in the column.
\<close>

definition true_index :: "triple list \<Rightarrow> int \<Rightarrow> (int \<times> int) list" where
  "true_index batch column = zip (map int [0..<length batch]) (map (tcol column) batch)"

text \<open>
  \<^verbatim>\<open>_evaluate\<close>. The steps follow the source: the column check; the scores and the true
  scores; the sparse positive filter (with the assertion on \<^verbatim>\<open>all_pos_triples\<close>); the
  dense mask; the restriction of scores and mask to the entities of interest, where the
  mask is subscripted whether or not it is \<^verbatim>\<open>None\<close>; the calls of the unfiltered
  evaluators; and, when filtering is necessary, the NaN filter on the score matrix, the
  rewriting of the true scores, the restriction and the calls of the filtered evaluators.
  \<^verbatim>\<open>positive_filter_tails\<close> is bound only if the filter was computed.
\<close>

definition underscore_evaluate ::
  "triple list \<Rightarrow> ('a::{zero,one} score, 'z) model_scheme \<Rightarrow> int \<Rightarrow> evaluator list
     \<Rightarrow> evaluator list \<Rightarrow> nat option \<Rightarrow> triple list option \<Rightarrow> bool list list option
     \<Rightarrow> int list option \<Rightarrow> bool \<Rightarrow> bool \<Rightarrow> ('a, bool list list option) run" where
  "underscore_evaluate batch model column filtered_evaluators unfiltered_evaluators slice_sz
     all_pos_triples relation_filter restrict_entities_to positive_masks_required
     filtering_necessary =
    (if column \<notin> {0, 2} then run_raise (ValueError column)
     else
     run_bind (predict_scores model column batch slice_sz)
       (\<lambda>scores_of_corrupted_tails_batch.
     run_bind (run_lift (index_get scores_of_corrupted_tails_batch (true_index batch column)))
       (\<lambda>scores_of_true_tails_batch.
     run_bind
       (if filtering_necessary \<or> positive_masks_required then
          (case all_pos_triples of
             None \<Rightarrow> run_raise AssertionError
           | Some all_pos \<Rightarrow>
               run_bind (run_lift (create_sparse_positive_filter batch all_pos relation_filter
                                     column))
                 (\<lambda>(positive_filter, relation_filter).
                    run_return (Some positive_filter, Some relation_filter)))
        else run_return (None, relation_filter))
       (\<lambda>(positive_filter_tails, relation_filter).
     run_bind
       (if positive_masks_required then
          (case positive_filter_tails of
             None \<Rightarrow> run_raise (UnboundLocalError ''positive_filter_tails'')
           | Some positive_filter \<Rightarrow>
               run_bind (run_lift (create_dense_positive_mask
                                     (zeros_like scores_of_corrupted_tails_batch)
                                     positive_filter))
                 (\<lambda>positive_mask. run_return (Some positive_mask)))
        else run_return None)
       (\<lambda>positive_mask_tails.
     run_bind
       (case restrict_entities_to of
          Some restrict \<Rightarrow>
            run_bind (run_lift (select_columns scores_of_corrupted_tails_batch restrict))
              (\<lambda>restricted_scores.
            run_bind
              (case positive_mask_tails of
                 None \<Rightarrow> run_raise TypeError
               | Some positive_mask \<Rightarrow> run_lift (select_columns positive_mask restrict))
              (\<lambda>restricted_mask. run_return (restricted_scores, Some restricted_mask)))
        | None \<Rightarrow> run_return (scores_of_corrupted_tails_batch, positive_mask_tails))
       (\<lambda>(scores_of_corrupted_tails_batch', positive_mask_tails).
     run_bind
       (run_emit
          (map (\<lambda>unfiltered_evaluator.
                  ProcessedUnfiltered unfiltered_evaluator (if column = 2 then Tail else Head)
                    \<lparr>call_hrt_batch = batch,
                     call_true_scores = map (\<lambda>x. [x]) scores_of_true_tails_batch,
                     call_scores = scores_of_corrupted_tails_batch',
                     call_dense_positive_mask = positive_mask_tails\<rparr>)
             unfiltered_evaluators))
       (\<lambda>_.
     run_bind
       (if filtering_necessary then
          (case positive_filter_tails of
             None \<Rightarrow> run_raise (UnboundLocalError ''positive_filter_tails'')
           | Some positive_filter \<Rightarrow>
               run_bind (run_lift (filter_scores scores_of_corrupted_tails_batch
                                     positive_filter))
                 (\<lambda>(filtered_scores, warned).
               run_bind (run_emit (NaNWritten positive_filter filtered_scores
                                     # (if warned then [Warned] else [])))
                 (\<lambda>_.
               run_bind (run_lift (index_put filtered_scores
                                     (zip (true_index batch column)
                                        scores_of_true_tails_batch)))
                 (\<lambda>filtered_scores.
               run_bind (run_emit [TrueScoresRewritten filtered_scores])
                 (\<lambda>_.
               run_bind
                 (case restrict_entities_to of
                    Some restrict \<Rightarrow> run_lift (select_columns filtered_scores restrict)
                  | None \<Rightarrow> run_return filtered_scores)
                 (\<lambda>filtered_scores.
               run_emit
                 (map (\<lambda>filtered_evaluator.
                         ProcessedFiltered filtered_evaluator
                           (if column = 2 then Tail else Head)
                           \<lparr>call_hrt_batch = batch,
                            call_true_scores = map (\<lambda>x. [x]) scores_of_true_tails_batch,
                            call_scores = filtered_scores,
                            call_dense_positive_mask = None\<rparr>)
                    filtered_evaluators)))))))
        else run_return ())
       (\<lambda>_. run_return relation_filter))))))))"


section \<open>The evaluation loop\<close>

text \<open>
  The inner loop \<^verbatim>\<open>for column in (0, 2)\<close> of \<^verbatim>\<open>evaluate\<close>. The local variable
  \<^verbatim>\<open>relation_filter\<close> is read as an argument of every call of \<^verbatim>\<open>_evaluate\<close> and
  assigned from its result. A local variable of a Python function is unbound until its
  first assignment, and reading it then raises \<^verbatim>\<open>UnboundLocalError\<close>: the variable is
  an \<open>option\<close>, \<open>None\<close> while unbound. \<open>body column rf\<close> is the call of \<^verbatim>\<open>_evaluate\<close>
  for the current batch.
\<close>

fun for_columns ::
  "(int \<Rightarrow> 'f \<Rightarrow> ('a, 'f) run) \<Rightarrow> int list \<Rightarrow> 'f option \<Rightarrow> ('a, 'f option) run" where
  "for_columns body [] relation_filter = run_return relation_filter"
| "for_columns body (column # columns) relation_filter =
     (case relation_filter of
        None \<Rightarrow> run_raise (UnboundLocalError ''relation_filter'')
      | Some rf \<Rightarrow>
          run_bind (body column rf) (\<lambda>rf'. for_columns body columns (Some rf')))"

text \<open>
  The outer loop \<^verbatim>\<open>for batch in batches\<close>, with the early exit of size probing after
  the second batch.
\<close>

fun for_batches ::
  "(triple list \<Rightarrow> int \<Rightarrow> 'f \<Rightarrow> ('a, 'f) run) \<Rightarrow> bool \<Rightarrow> triple list list \<Rightarrow> 'f option
     \<Rightarrow> bool \<Rightarrow> ('a, unit) run" where
  "for_batches body only_size_probing [] relation_filter evaluated = run_return ()"
| "for_batches body only_size_probing (batch # batches) relation_filter evaluated =
     run_bind (for_columns (body batch) [0, 2] relation_filter)
       (\<lambda>relation_filter.
          if only_size_probing \<and> evaluated then run_return ()
          else for_batches body only_size_probing batches relation_filter True)"

text \<open>
  The triples that are evaluated: the given ones, filtered by the mask of the chosen
  variant when a restriction is given.
\<close>

definition restrict_triples ::
  "triple list \<Rightarrow> int list option \<Rightarrow> int list option \<Rightarrow> bool \<Rightarrow> triple list" where
  "restrict_triples mapped_triples restrict_entities_to restrict_relations_to
     memory_intense_filtering =
    (if restrict_relations_to \<noteq> None \<or> restrict_entities_to \<noteq> None then
       select_rows mapped_triples
         ((if memory_intense_filtering then compute_triples_mask_high_memory
           else compute_triples_mask_low_memory)
            mapped_triples restrict_entities_to restrict_relations_to)
     else mapped_triples)"

text \<open>
  The argument \<^verbatim>\<open>evaluators\<close> is one evaluator or a collection of them, and the result
  is one result or a list of them.
\<close>

datatype evaluators_arg = OneEvaluator evaluator | Evaluators "evaluator list"

datatype 'r results = OneResult 'r | Results "'r list"

text \<open>
  \<^verbatim>\<open>evaluate\<close>. Two things it uses are not in the sources and are parameters:
  \<^verbatim>\<open>split_list_in_batches_iter\<close> of \<^verbatim>\<open>pykeen.utils\<close>, and what \<^verbatim>\<open>finalize\<close> of an
  evaluator returns, which is a function of the evaluator and of the events up to then.
  Before the loop the model, the positive triples and the evaluated triples are moved to
  the device (\<^verbatim>\<open>.to(device)\<close>), which raises a \<^verbatim>\<open>RuntimeError\<close> when the device
  cannot hold them: \<open>transfer\<close> is that error if the moves of this call raise one, and
  \<open>None\<close> if they succeed. Only pure computations stand between the moves, so they are
  one step of the model. \<^verbatim>\<open>model.eval()\<close>, the progress bar and the timing have no
  part in what is modelled.
\<close>

definition evaluate ::
  "(triple list \<Rightarrow> nat \<Rightarrow> triple list list) \<Rightarrow> (evaluator \<Rightarrow> 'a event list \<Rightarrow> 'r)
     \<Rightarrow> runtime_kind option \<Rightarrow> ('a::{zero,one} score, 'z) model_scheme \<Rightarrow> triple list
     \<Rightarrow> evaluators_arg \<Rightarrow> bool \<Rightarrow> nat option \<Rightarrow> nat option \<Rightarrow> bool \<Rightarrow> int list option
     \<Rightarrow> int list option \<Rightarrow> bool \<Rightarrow> ('a, 'r results) run" where
  "evaluate split_list_in_batches_iter finalize transfer model mapped_triples evaluators
     only_size_probing batch_sz slice_sz squeeze restrict_entities_to restrict_relations_to
     memory_intense_filtering =
    (let evaluators = (case evaluators of OneEvaluator e \<Rightarrow> [e] | Evaluators es \<Rightarrow> es);
         mapped_triples = restrict_triples mapped_triples restrict_entities_to
                            restrict_relations_to memory_intense_filtering;
         filtered_evaluators = filter filtered evaluators;
         unfiltered_evaluators = filter (\<lambda>e. \<not> filtered e) evaluators;
         filtering_necessary = (length filtered_evaluators > 0);
         positive_masks_required = list_ex requires_positive_mask unfiltered_evaluators;
         all_pos_triples =
           (if filtering_necessary \<or> positive_masks_required
            then Some (factory_mapped_triples model @ mapped_triples) else None);
         batch_sz = (case batch_sz of None \<Rightarrow> 1 | Some b \<Rightarrow> b)
     in case transfer of
          Some k \<Rightarrow> run_raise (RuntimeError k)
        | None \<Rightarrow>
           (case for_batches
                   (\<lambda>batch column relation_filter.
                      underscore_evaluate batch model column filtered_evaluators
                        unfiltered_evaluators slice_sz all_pos_triples relation_filter
                        restrict_entities_to positive_masks_required filtering_necessary)
                   only_size_probing (split_list_in_batches_iter mapped_triples batch_sz)
                   None False of
              (tr, Inl exn) \<Rightarrow> (tr, Inl exn)
            | (tr, Inr _) \<Rightarrow>
                (let results = map (\<lambda>e. finalize e tr) evaluators
                 in (tr @ map Finalized evaluators,
                     Inr (if squeeze \<and> length results = 1 then OneResult (results ! 0)
                          else Results results)))))"

text \<open>
  The probe of the size search, as \<^verbatim>\<open>_param_size_search\<close> of an evaluator makes it:
  \<^verbatim>\<open>evaluate(**values_dict, model=model, mapped_triples=mapped_triples, evaluators=self,
  only_size_probing=True, squeeze=True, ...)\<close>, with no restriction. Its outcome is the
  exception of the call, if any; \<open>transfer n\<close> is what the moves to the device do in the
  \<open>n\<close>-th call.
\<close>

definition size_probe ::
  "(triple list \<Rightarrow> nat \<Rightarrow> triple list list) \<Rightarrow> (evaluator \<Rightarrow> 'a event list \<Rightarrow> 'r)
     \<Rightarrow> (nat \<Rightarrow> runtime_kind option) \<Rightarrow> ('a::{zero,one} score, 'z) model_scheme
     \<Rightarrow> triple list \<Rightarrow> evaluator \<Rightarrow> nat \<Rightarrow> size_values \<Rightarrow> error + unit" where
  "size_probe split_list_in_batches_iter finalize transfer model mapped_triples self n d =
    (case snd (evaluate split_list_in_batches_iter finalize (transfer n) model mapped_triples
                 (OneEvaluator self) True (batch_size d) (slice_size d) True None None
                 False) of
       Inl exn \<Rightarrow> Inl exn
     | Inr _ \<Rightarrow> Inr ())"

text \<open>
  Modelled from the spec: \<^verbatim>\<open>split_list_in_batches_iter\<close> is not part of the sources.
  The specification has the triples partitioned into sequential, non-overlapping batches
  of the batch size, the last of which may be smaller. (No batch is produced for the
  batch size 0, which the docstring of \<^verbatim>\<open>evaluate\<close> excludes.)
\<close>

fun split_in_batches :: "nat \<Rightarrow> 'x list \<Rightarrow> nat \<Rightarrow> 'x list list" where
  "split_in_batches 0 xs n = []"
| "split_in_batches (Suc fuel) xs n =
     (if xs = [] \<or> n = 0 then [] else take n xs # split_in_batches fuel (drop n xs) n)"

definition split_list_in_batches_iter :: "'x list \<Rightarrow> nat \<Rightarrow> 'x list list" where
  "split_list_in_batches_iter input_list n = split_in_batches (length input_list) input_list n"


section \<open>Small instances\<close>

text \<open>
  \<open>toy_caps\<close> is a model of three entities that can slice on both sides; it scores every
  batch row with \<open>5, 1, 3\<close> on the tail side and with \<open>2, 4, 6\<close> on the head side.
\<close>

definition toy_caps :: "int score model" where
  "toy_caps = \<lparr>predict_scores_all_tails = (\<lambda>hr _. Inr (map (\<lambda>_. [Num 5, Num 1, Num 3]) hr)),
     predict_scores_all_heads = (\<lambda>rt _. Inr (map (\<lambda>_. [Num 2, Num 4, Num 6]) rt)),
     can_slice_h = True, can_slice_t = True, num_entities = 3,
     create_inverse_triples = False, factory_mapped_triples = []\<rparr>"

definition five_triples :: "triple list" where
  "five_triples = [(0, 0, 1), (1, 0, 2), (2, 0, 3), (3, 0, 4), (4, 0, 5)]"

text \<open>
  Two models that can slice on the tail side only, one with inverse triples and one
  without.
\<close>

definition tail_slicing_inverse :: "int score model" where
  "tail_slicing_inverse = toy_caps\<lparr>can_slice_h := False, create_inverse_triples := True\<rparr>"

definition tail_slicing_plain :: "int score model" where
  "tail_slicing_plain = toy_caps\<lparr>can_slice_h := False\<rparr>"


definition filtered_evaluator :: evaluator where
  "filtered_evaluator = \<lparr>filtered = True, requires_positive_mask = False, ident = 0\<rparr>"

definition unfiltered_evaluator :: evaluator where
  "unfiltered_evaluator = \<lparr>filtered = False, requires_positive_mask = False, ident = 1\<rparr>"

definition masked_evaluator :: evaluator where
  "masked_evaluator = \<lparr>filtered = False, requires_positive_mask = True, ident = 2\<rparr>"

text \<open>A \<^verbatim>\<open>finalize\<close> that reports the number of events before it.\<close>

definition count_events :: "evaluator \<Rightarrow> int event list \<Rightarrow> nat" where
  "count_events e tr = length tr"

section \<open>Properties of the size search\<close>

subsection \<open>One iteration of the loop\<close>

lemma loop_step_memory_error:
  assumes "probe (length (probed s)) (values_dict key (current s)) = Inl (RuntimeError k)"
    and "is_cuda_oom_error k \<or> is_cudnn_error k"
  shows "param_size_loop probe key m s =
    (if current s = 1
     then Some (probed s @ [values_dict key (current s)], Inr (current s, evaluated_once s))
     else param_size_loop probe key m
            (s\<lparr>current := current s div 2, evaluated_once := False, reached_max := True,
               probed := probed s @ [values_dict key (current s)]\<rparr>))"
  using assms by (subst param_size_loop.simps) (auto simp add: Let_def)

lemma loop_step_other_exception:
  assumes "probe (length (probed s)) (values_dict key (current s)) = Inl exn"
    and "\<And>k. exn \<noteq> RuntimeError k"
  shows "param_size_loop probe key m s
    = Some (probed s @ [values_dict key (current s)], Inl exn)"
proof (cases exn)
  case (RuntimeError k)
  with assms(2) show ?thesis by blast
qed (subst param_size_loop.simps, simp add: Let_def assms(1))+

subsection \<open>A probe that always fails\<close>

lemma loop_always_failing:
  assumes fail: "\<And>n d. \<exists>k. probe n d = Inl (RuntimeError k)
                 \<and> (is_cuda_oom_error k \<or> is_cudnn_error k)"
  shows "1 \<le> current s \<Longrightarrow> \<not> evaluated_once s \<Longrightarrow>
    \<exists>log. param_size_loop probe key m s
        = Some (probed s @ values_dict key (current s) # log, Inr (1, False))
      \<and> last (values_dict key (current s) # log) = values_dict key 1"
proof (induction "current s" arbitrary: s rule: less_induct)
  case less
  from fail obtain k where
    k: "probe (length (probed s)) (values_dict key (current s)) = Inl (RuntimeError k)"
       "is_cuda_oom_error k \<or> is_cudnn_error k" by blast
  show ?case
  proof (cases "current s = 1")
    case True
    have "param_size_loop probe key m s
        = Some (probed s @ [values_dict key (current s)], Inr (current s, evaluated_once s))"
      using True by (simp add: loop_step_memory_error [where probe = probe and s = s and key = key, OF k])
    with True less.prems(2) show ?thesis by simp
  next
    case False
    let ?s' = "s\<lparr>current := current s div 2, evaluated_once := False,
                 reached_max := True, probed := probed s @ [values_dict key (current s)]\<rparr>"
    have step: "param_size_loop probe key m s = param_size_loop probe key m ?s'"
      using False by (simp add: loop_step_memory_error [where probe = probe and s = s and key = key, OF k])
    have "current ?s' < current s" "1 \<le> current ?s'" "\<not> evaluated_once ?s'"
      using False less.prems by simp_all
    from less.hyps [OF this] obtain log where
      l: "param_size_loop probe key m ?s'
           = Some (probed ?s' @ values_dict key (current ?s') # log, Inr (1, False))"
         "last (values_dict key (current ?s') # log) = values_dict key 1"
      by blast
    have "param_size_loop probe key m s
       = Some (probed s @ values_dict key (current s) # (values_dict key (current ?s') # log),
               Inr (1, False))"
      using step l(1) by simp
    moreover have "last (values_dict key (current s) # (values_dict key (current ?s') # log))
       = values_dict key 1"
      using l(2) by simp
    ultimately show ?thesis by blast
  qed
qed

text \<open>
  From the value 0 a failing probe never leaves the loop: 0 is not 1, and halving 0
  gives 0 again.
\<close>

lemma loop_stuck_at_zero:
  assumes ret: "param_size_loop probe key m s = Some r"
  shows "\<not> (probe = always_oom \<and> current s = 0)"
proof (rule param_size_loop.raw_induct
    [where P = "\<lambda>probe key m s r. \<not> (probe = always_oom \<and> current s = 0)", OF _ ret])
  fix f probe key m s r
  assume IH: "\<And>probe key m s r. f probe key m s = Some r
                 \<Longrightarrow> \<not> (probe = always_oom \<and> current s = 0)"
    and eq: "(let d = values_dict key (current s); log = probed s @ [d] in
     case probe (length (probed s)) d of
       Inl exn \<Rightarrow>
         (case exn of
            RuntimeError k \<Rightarrow>
              if \<not> is_cudnn_error k \<and> \<not> is_cuda_oom_error k then Some (log, Inl exn)
              else if current s = 1 then Some (log, Inr (current s, evaluated_once s))
              else f probe key m
                     (s\<lparr>current := current s div 2, evaluated_once := False,
                        reached_max := True, probed := log\<rparr>)
          | _ \<Rightarrow> Some (log, Inl exn))
     | Inr _ \<Rightarrow>
         if \<not> reached_max s \<and> dict_batch_size key (current s) < m
           then f probe key m
                  (s\<lparr>current := current s * 2, evaluated_once := True, probed := log\<rparr>)
         else if evaluated_once s then Some (log, Inr (current s, evaluated_once s))
         else f probe key m
                (s\<lparr>evaluated_once := True, probed := log\<rparr>)) = Some r"
  show "\<not> (probe = always_oom \<and> current s = 0)"
  proof
    assume a: "probe = always_oom \<and> current s = 0"
    with eq have "f probe key m (s\<lparr>current := current s div 2, evaluated_once := False,
        reached_max := True, probed := probed s @ [values_dict key (current s)]\<rparr>) = Some r"
      by (simp add: always_oom_def Let_def is_cuda_oom_error_def)
    from IH [OF this] a show False by simp
  qed
qed

lemma search_stuck_on_no_triples:
  "param_size_search always_oom ''batch_size'' None model [] = None"
proof (cases "param_size_search always_oom ''batch_size'' None model []")
  case None
  then show ?thesis .
next
  case (Some r)
  then have "param_size_loop always_oom ''batch_size'' 0
      \<lparr>current = 0, reached_max = False, evaluated_once = False, probed = []\<rparr> = Some r"
    by (simp add: param_size_search_def)
  from loop_stuck_at_zero [OF this] show ?thesis by simp
qed


section \<open>Properties of the evaluation loop\<close>

lemma for_columns_unbound:
  "for_columns body (column # columns) None = ([], Inl (UnboundLocalError ''relation_filter''))"
  by (simp add: run_raise_def)

lemma for_batches_unbound:
  "batches \<noteq> [] \<Longrightarrow>
   for_batches body only_size_probing batches None evaluated
     = ([], Inl (UnboundLocalError ''relation_filter''))"
  by (cases batches) (simp_all add: run_raise_def run_bind_def)

lemma evaluate_transfer_raises:
  "evaluate split finalize (Some k) model mapped_triples evaluators only_size_probing batch_sz
     slice_sz squeeze restrict_entities_to restrict_relations_to memory_intense_filtering
   = ([], Inl (RuntimeError k))"
  by (simp add: evaluate_def Let_def run_raise_def)

lemma evaluate_unbound:
  assumes "split (restrict_triples mapped_triples restrict_entities_to restrict_relations_to
                    memory_intense_filtering)
             (case batch_sz of None \<Rightarrow> 1 | Some b \<Rightarrow> b) \<noteq> []"
  shows "evaluate split finalize None model mapped_triples evaluators only_size_probing
           batch_sz slice_sz squeeze restrict_entities_to restrict_relations_to
           memory_intense_filtering
         = ([], Inl (UnboundLocalError ''relation_filter''))"
  using assms by (simp add: evaluate_def Let_def for_batches_unbound)


lemma restrict_triples_none: "restrict_triples mapped_triples None None b = mapped_triples"
  by (simp add: restrict_triples_def)

lemma split_list_in_batches_iter_nonempty:
  "xs \<noteq> [] \<Longrightarrow> n \<noteq> 0 \<Longrightarrow> split_list_in_batches_iter xs n \<noteq> []"
  by (cases xs) (simp_all add: split_list_in_batches_iter_def)

text \<open>The probe of the size search in the two cases that decide it.\<close>

lemma size_probe_transfer_raises:
  "transfer n = Some k \<Longrightarrow>
   size_probe split finalize transfer model mapped_triples self n d = Inl (RuntimeError k)"
  by (simp add: size_probe_def evaluate_transfer_raises)

lemma size_probe_unbound:
  assumes "transfer n = None"
    and "split mapped_triples (case batch_size d of None \<Rightarrow> 1 | Some b \<Rightarrow> b) \<noteq> []"
  shows "size_probe split finalize transfer model mapped_triples self n d
    = Inl (UnboundLocalError ''relation_filter'')"
  using assms by (simp add: size_probe_def evaluate_unbound restrict_triples_none)

text \<open>
  With at least one triple and a start value other than 0, the batch size search of an
  evaluator ends at its first probe, whose moves to the device succeed, with the
  \<^verbatim>\<open>UnboundLocalError\<close> of \<^verbatim>\<open>evaluate\<close>: it is no \<^verbatim>\<open>RuntimeError\<close>, so the
  \<^verbatim>\<open>except\<close> clause lets it pass.
\<close>

lemma size_search_unbound:
  assumes "transfer 0 = None"
    and "c = (let sv = (case start_value of None \<Rightarrow> 256 | Some v \<Rightarrow> v)
              in if sv > length mapped_triples then length mapped_triples else sv)"
    and "split mapped_triples c \<noteq> []"
  shows "param_size_search (size_probe split finalize transfer model mapped_triples self)
           ''batch_size'' start_value model' mapped_triples
         = Some ([values_dict ''batch_size'' c], Inl (UnboundLocalError ''relation_filter''))"
proof -
  let ?probe = "size_probe split finalize transfer model mapped_triples self"
  let ?s = "\<lparr>current = c, reached_max = False, evaluated_once = False, probed = []\<rparr>"
  have "?probe (length (probed ?s)) (values_dict ''batch_size'' (current ?s))
      = Inl (UnboundLocalError ''relation_filter'')"
    using assms(1,3) by (simp add: size_probe_unbound values_dict_def)
  then have "param_size_loop ?probe ''batch_size'' (length mapped_triples) ?s
      = Some (probed ?s @ [values_dict ''batch_size'' (current ?s)],
              Inl (UnboundLocalError ''relation_filter''))"
    by (rule loop_step_other_exception) simp
  then show ?thesis
    using assms(2) by (simp add: param_size_search_def Let_def)
qed

lemma size_probe_always_oom:
  "size_probe split finalize (\<lambda>n. Some CudaOom) model mapped_triples self = always_oom"
  by (intro ext) (simp add: size_probe_transfer_raises always_oom_def)


section \<open>The claim about the unbound variable\<close>




section \<open>The claims about the size search\<close>

text \<open>
  C5. The size search does not return the threshold: its probe is a call of
  \<^verbatim>\<open>evaluate\<close>, which on a non-empty triple set raises \<^verbatim>\<open>UnboundLocalError\<close> before
  any score is computed (the defect of C1). With five triples and no start value the
  search probes batch size 5 once and ends with that exception.
\<close>

theorem size_search_ends_at_first_probe:
  "param_size_search
     (size_probe split_list_in_batches_iter count_events (\<lambda>n. None) toy_caps five_triples
        filtered_evaluator)
     ''batch_size'' None toy_caps five_triples
   = Some ([values_dict ''batch_size'' 5], Inl (UnboundLocalError ''relation_filter''))"
proof (rule size_search_unbound)
  show "(\<lambda>n. None :: runtime_kind option) 0 = None" by simp
  show "5 = (let sv = (case None of None \<Rightarrow> 256 | Some v \<Rightarrow> v)
             in if sv > length five_triples then length five_triples else sv)"
    by (simp add: five_triples_def)
  show "split_list_in_batches_iter five_triples 5 \<noteq> []"
    by (rule split_list_in_batches_iter_nonempty) (simp_all add: five_triples_def)
qed

text \<open>
  C6. On an empty triple set the exhaustion is never reached. The start value 256 is
  clamped to the number of triples, 0; every probe fails with an out-of-memory error
  (here: the moves to the device raise it), which leaves 0, not being 1, to be halved, and
  that gives 0 again. The batch size search never returns, and neither does
  \<^verbatim>\<open>batch_and_slice\<close>.
\<close>

theorem batch_and_slice_stuck_on_no_triples:
  "batch_and_slice
     (size_probe split_list_in_batches_iter count_events (\<lambda>n. Some CudaOom) toy_caps []
        filtered_evaluator)
     toy_caps [] None = None
   \<and> size_probe split_list_in_batches_iter count_events (\<lambda>n. Some CudaOom) toy_caps []
        filtered_evaluator 0 (values_dict ''batch_size'' 0) = Inl (RuntimeError CudaOom)
   \<and> is_cuda_oom_error CudaOom"
  by (simp add: size_probe_always_oom batch_and_slice_def search_stuck_on_no_triples
      always_oom_def is_cuda_oom_error_def)

text \<open>
  Where the search starts from a positive value the claimed exhaustion does happen: if
  every probe fails with a memory-class error, there is a triple and an entity, and the
  start value is not 0, then the batch size search ends unsuccessfully at 1,
  \<^verbatim>\<open>batch_and_slice\<close> goes on to the slice size search from half the number of entities
  (unless the slicing check raises), and raises \<^verbatim>\<open>MemoryError\<close>.
\<close>

lemma batch_and_slice_exhaustion:
  assumes fail: "\<And>n d. \<exists>k. probe n d = Inl (RuntimeError k)
                 \<and> (is_cuda_oom_error k \<or> is_cudnn_error k)"
    and triples: "mapped_triples \<noteq> []"
    and start: "batch_sz \<noteq> Some 0"
    and entities: "1 \<le> num_entities model"
  shows "\<exists>log1. param_size_search probe ''batch_size'' batch_sz model mapped_triples
             = Some (log1, Inr (1, False))
      \<and> log1 \<noteq> [] \<and> last log1 = values_dict ''batch_size'' 1
      \<and> (case check_slicing_availability model 1 of
            Inl exn \<Rightarrow>
              batch_and_slice probe model mapped_triples batch_sz = Some (log1, Inl exn)
              \<and> exn = MemoryError (SlicingNotImplemented 1)
          | Inr _ \<Rightarrow>
              (\<exists>log2. batch_and_slice probe model mapped_triples batch_sz
                   = Some (log1 @ values_dict ''slice_size'' ((num_entities model + 1) div 2)
                             # log2,
                           Inl (MemoryError CannotBeTrained))
                 \<and> last (values_dict ''slice_size'' ((num_entities model + 1) div 2) # log2)
                     = values_dict ''slice_size'' 1))"
proof -
  let ?c = "(let sv = (case batch_sz of None \<Rightarrow> 256 | Some v \<Rightarrow> v)
             in if sv > length mapped_triples then length mapped_triples else sv)"
  let ?s1 = "\<lparr>current = ?c, reached_max = False, evaluated_once = False, probed = []\<rparr>"
  have c1: "1 \<le> ?c"
    using triples start by (cases batch_sz) (auto simp: Let_def Suc_le_eq)
  have "\<exists>log. param_size_loop probe ''batch_size'' (length mapped_triples) ?s1
        = Some (probed ?s1 @ values_dict ''batch_size'' (current ?s1) # log, Inr (1, False))
      \<and> last (values_dict ''batch_size'' (current ?s1) # log) = values_dict ''batch_size'' 1"
    using c1 by (intro loop_always_failing fail) simp_all
  then obtain l1 where l1:
    "param_size_loop probe ''batch_size'' (length mapped_triples) ?s1
        = Some (values_dict ''batch_size'' ?c # l1, Inr (1, False))"
    "last (values_dict ''batch_size'' ?c # l1) = values_dict ''batch_size'' 1"
    by auto
  let ?log1 = "values_dict ''batch_size'' ?c # l1"
  have first: "param_size_search probe ''batch_size'' batch_sz model mapped_triples
      = Some (?log1, Inr (1, False))"
    using l1(1) by (simp add: param_size_search_def Let_def)
  let ?h = "(num_entities model + 1) div 2"
  let ?probe2 = "\<lambda>n. probe (length ?log1 + n)"
  let ?s2 = "\<lparr>current = ?h, reached_max = False, evaluated_once = False, probed = []\<rparr>"
  have fail2: "\<And>n d. \<exists>k. ?probe2 n d = Inl (RuntimeError k)
                 \<and> (is_cuda_oom_error k \<or> is_cudnn_error k)"
    by (rule fail)
  have h1: "1 \<le> ?h" using entities by simp
  have "\<exists>log. param_size_loop ?probe2 ''slice_size'' (length mapped_triples) ?s2
        = Some (probed ?s2 @ values_dict ''slice_size'' (current ?s2) # log, Inr (1, False))
      \<and> last (values_dict ''slice_size'' (current ?s2) # log) = values_dict ''slice_size'' 1"
    using h1 by (intro loop_always_failing fail2) simp_all
  then obtain l2 where l2:
    "param_size_loop ?probe2 ''slice_size'' (length mapped_triples) ?s2
        = Some (values_dict ''slice_size'' ?h # l2, Inr (1, False))"
    "last (values_dict ''slice_size'' ?h # l2) = values_dict ''slice_size'' 1"
    by auto
  have second: "(case check_slicing_availability model 1 of
            Inl exn \<Rightarrow>
              batch_and_slice probe model mapped_triples batch_sz = Some (?log1, Inl exn)
              \<and> exn = MemoryError (SlicingNotImplemented 1)
          | Inr _ \<Rightarrow>
              (\<exists>log2. batch_and_slice probe model mapped_triples batch_sz
                   = Some (?log1 @ values_dict ''slice_size'' ?h # log2,
                           Inl (MemoryError CannotBeTrained))
                 \<and> last (values_dict ''slice_size'' ?h # log2) = values_dict ''slice_size'' 1))"
  proof (cases "check_slicing_availability model 1")
    case (Inl exn)
    then have "exn = MemoryError (SlicingNotImplemented 1)"
      by (auto simp: check_slicing_availability_def split: if_splits)
    moreover have "batch_and_slice probe model mapped_triples batch_sz = Some (?log1, Inl exn)"
      unfolding batch_and_slice_def first using Inl by (simp add: param_size_search_def)
    ultimately show ?thesis using Inl by simp
  next
    case (Inr u)
    have "param_size_search ?probe2 ''slice_size'' (Some ?h) model mapped_triples
        = Some (values_dict ''slice_size'' ?h # l2, Inr (1, False))"
      using Inr l2(1) by (simp add: param_size_search_def Let_def)
    then have "batch_and_slice probe model mapped_triples batch_sz
        = Some (?log1 @ values_dict ''slice_size'' ?h # l2, Inl (MemoryError CannotBeTrained))"
      unfolding batch_and_slice_def first by simp
    with l2(2) Inr show ?thesis by auto
  qed
  from first l1(2) second show ?thesis by blast
qed

lemma batch_and_slice_exhaustion_on_five_triples:
  "\<exists>log. batch_and_slice
     (size_probe split_list_in_batches_iter count_events (\<lambda>n. Some CudaOom) toy_caps
        five_triples filtered_evaluator)
     toy_caps five_triples None = Some (log, Inl (MemoryError CannotBeTrained))"
proof -
  have "\<And>n d. \<exists>k. always_oom n d = Inl (RuntimeError k)
                 \<and> (is_cuda_oom_error k \<or> is_cudnn_error k)"
    by (simp add: always_oom_def is_cuda_oom_error_def)
  moreover have "five_triples \<noteq> []" by (simp add: five_triples_def)
  moreover have "(None :: nat option) \<noteq> Some 0" by simp
  moreover have "1 \<le> num_entities toy_caps" by (simp add: toy_caps_def)
  ultimately show ?thesis
    using batch_and_slice_exhaustion
      [where probe = always_oom and mapped_triples = five_triples and batch_sz = None
         and model = toy_caps]
    by (auto simp add: size_probe_always_oom check_slicing_availability_def toy_caps_def)
qed

text \<open>
  C7, as amended. The slice size search checks the model's slicing support before any
  probe and raises the slicing \<^verbatim>\<open>MemoryError\<close> with no probe made when the check fails.
  The check passes exactly when the model can slice on the tail side and, if the triples
  factory does not create inverse triples, also on the head side: with inverse triples
  tail-side support alone is enough, without them both sides are required.
\<close>

theorem slicing_checked_before_probing:
  "(check_slicing_availability model 1 = Inr ()
      \<longleftrightarrow> (if create_inverse_triples model then can_slice_t model
           else can_slice_t model \<and> can_slice_h model))
   \<and> (check_slicing_availability model 1 \<noteq> Inr ()
      \<longrightarrow> param_size_search probe ''slice_size'' start_value model mapped_triples
            = Some ([], Inl (MemoryError (SlicingNotImplemented 1))))"
  by (simp add: check_slicing_availability_def param_size_search_def)

theorem slicing_checked_before_probing_witness:
  "check_slicing_availability tail_slicing_plain 1 \<noteq> Inr ()
   \<and> param_size_search always_oom ''slice_size'' (Some 2) tail_slicing_plain five_triples
       = Some ([], Inl (MemoryError (SlicingNotImplemented 1)))
   \<and> check_slicing_availability tail_slicing_inverse 1 = Inr ()"
  using slicing_checked_before_probing
    [where model = tail_slicing_plain and probe = always_oom and start_value = "Some 2"
       and mapped_triples = five_triples]
    slicing_checked_before_probing
    [where model = tail_slicing_inverse and probe = always_oom and start_value = "Some 2"
       and mapped_triples = five_triples]
  by (simp add: tail_slicing_plain_def tail_slicing_inverse_def toy_caps_def)

text \<open>
  The claim as stated has the two cases the wrong way round: a model with inverse triples
  that slices on the tail side only passes the check, and the same model without inverse
  triples is rejected.
\<close>

theorem slicing_sides_swapped:
  "check_slicing_availability tail_slicing_inverse 1 = Inr ()
   \<and> check_slicing_availability tail_slicing_plain 1
       = Inl (MemoryError (SlicingNotImplemented 1))"
  by (simp add: check_slicing_availability_def tail_slicing_plain_def
      tail_slicing_inverse_def toy_caps_def)


section \<open>The claim about the two mask computations\<close>

text \<open>
  C2. The two variants do not return the same mask. With the entity restriction \<open>[0]\<close>
  the triple \<open>(0, 0, 1)\<close> is dropped by the broadcast variant (its tail is not allowed)
  and kept by the incremental one (its head is allowed); with the relation restriction
  \<open>[1]\<close> the triple \<open>(0, 0, 0)\<close> is dropped by the broadcast variant and kept by the
  incremental one, which never applies its relation mask.
\<close>

theorem triples_mask_variants_differ:
  "compute_triples_mask_high_memory [(0, 0, 1)] (Some [0]) None = [False]
   \<and> compute_triples_mask_low_memory [(0, 0, 1)] (Some [0]) None = [True]
   \<and> compute_triples_mask_high_memory [(0, 0, 0)] None (Some [1]) = [False]
   \<and> compute_triples_mask_low_memory [(0, 0, 0)] None (Some [1]) = [True]"
  by (simp add: compute_triples_mask_high_memory_def compute_triples_mask_low_memory_def)

end
